theory Spec2Isabelle
  imports Complex_Main
begin

section \<open>JavaScript numbers\<close>

text \<open>
  The card animation scheduler of \<^verbatim>\<open>idea-execution/script.js\<close> computes on JavaScript
  numbers. The control flow of \<^verbatim>\<open>Card.update\<close> depends on the special values of
  IEEE-754 (\<^verbatim>\<open>0 / 0\<close> is NaN, \<^verbatim>\<open>x / 0\<close> is an infinity, every comparison with NaN is
  false), so the model keeps them: a number is a finite real, one of the two infinities,
  or NaN. Finite values are taken as reals: rounding is not modelled, and neither is the
  sign of zero (a zero divisor is read as \<^verbatim>\<open>+0\<close>).
\<close>

datatype number = Fin real | PInf | NInf | NaN

instantiation number :: "{plus, minus, uminus, times, inverse, ord}"
begin

fun plus_number :: "number \<Rightarrow> number \<Rightarrow> number" where
  "plus_number NaN _ = NaN"
| "plus_number _ NaN = NaN"
| "plus_number (Fin a) (Fin b) = Fin (a + b)"
| "plus_number PInf NInf = NaN"
| "plus_number NInf PInf = NaN"
| "plus_number PInf _ = PInf"
| "plus_number _ PInf = PInf"
| "plus_number NInf _ = NInf"
| "plus_number _ NInf = NInf"

fun uminus_number :: "number \<Rightarrow> number" where
  "uminus_number (Fin a) = Fin (- a)"
| "uminus_number PInf = NInf"
| "uminus_number NInf = PInf"
| "uminus_number NaN = NaN"

definition minus_number :: "number \<Rightarrow> number \<Rightarrow> number" where
  "minus_number a b = a + (- b)"

fun times_number :: "number \<Rightarrow> number \<Rightarrow> number" where
  "times_number NaN _ = NaN"
| "times_number _ NaN = NaN"
| "times_number (Fin a) (Fin b) = Fin (a * b)"
| "times_number PInf (Fin b) = (if b = 0 then NaN else if 0 < b then PInf else NInf)"
| "times_number NInf (Fin b) = (if b = 0 then NaN else if 0 < b then NInf else PInf)"
| "times_number (Fin a) PInf = (if a = 0 then NaN else if 0 < a then PInf else NInf)"
| "times_number (Fin a) NInf = (if a = 0 then NaN else if 0 < a then NInf else PInf)"
| "times_number PInf PInf = PInf"
| "times_number NInf NInf = PInf"
| "times_number PInf NInf = NInf"
| "times_number NInf PInf = NInf"

fun divide_number :: "number \<Rightarrow> number \<Rightarrow> number" where
  "divide_number NaN _ = NaN"
| "divide_number _ NaN = NaN"
| "divide_number (Fin a) (Fin b) =
     (if b = 0 then (if a = 0 then NaN else if 0 < a then PInf else NInf)
      else Fin (a / b))"
| "divide_number (Fin a) _ = Fin 0"
| "divide_number PInf (Fin b) = (if 0 \<le> b then PInf else NInf)"
| "divide_number NInf (Fin b) = (if 0 \<le> b then NInf else PInf)"
| "divide_number _ _ = NaN"

definition inverse_number :: "number \<Rightarrow> number" where
  "inverse_number a = divide (Fin 1) a"

fun less_number :: "number \<Rightarrow> number \<Rightarrow> bool" where
  "less_number NaN _ = False"
| "less_number _ NaN = False"
| "less_number (Fin a) (Fin b) = (a < b)"
| "less_number _ NInf = False"
| "less_number PInf _ = False"
| "less_number _ _ = True"

fun less_eq_number :: "number \<Rightarrow> number \<Rightarrow> bool" where
  "less_eq_number NaN _ = False"
| "less_eq_number _ NaN = False"
| "less_eq_number (Fin a) (Fin b) = (a \<le> b)"
| "less_eq_number NInf _ = True"
| "less_eq_number _ PInf = True"
| "less_eq_number _ _ = False"

instance ..

end

text \<open>\<^verbatim>\<open>Math.min(a, b)\<close>: NaN when either argument is NaN.\<close>

fun Math_min :: "number \<Rightarrow> number \<Rightarrow> number" where
  "Math_min NaN _ = NaN"
| "Math_min _ NaN = NaN"
| "Math_min a b = (if a \<le> b then a else b)"

text \<open>\<^verbatim>\<open>Math.pow(x, n)\<close> for a natural exponent \<open>n\<close> (the source only uses \<open>n = 3\<close>).\<close>

definition Math_pow :: "number \<Rightarrow> nat \<Rightarrow> number" where
  "Math_pow x n =
     (if n = 0 then Fin 1
      else case x of
        Fin a \<Rightarrow> Fin (a ^ n)
      | PInf \<Rightarrow> PInf
      | NInf \<Rightarrow> (if odd n then NInf else PInf)
      | NaN \<Rightarrow> NaN)"

section \<open>Easing functions\<close>

definition easeOutCubic :: "number \<Rightarrow> number" where
  "easeOutCubic t = Fin 1 - Math_pow (Fin 1 - t) 3"

definition easeInOutCubic :: "number \<Rightarrow> number" where
  "easeInOutCubic t =
     (if t < Fin 0.5 then Fin 4 * t * t * t
      else Fin 1 - Math_pow (Fin (- 2) * t + Fin 2) 3 / Fin 2)"

definition easeInCubic :: "number \<Rightarrow> number" where
  "easeInCubic t = t * t * t"

text \<open>
  The interpolation of \<^verbatim>\<open>Card.update\<close>:
  \<^verbatim>\<open>anim.from + (anim.to - anim.from) * easedProgress\<close>.
\<close>

definition interpolate :: "number \<Rightarrow> number \<Rightarrow> number \<Rightarrow> number" where
  "interpolate f t easedProgress = f + (t - f) * easedProgress"

section \<open>Animations and cards\<close>

text \<open>
  An animation is the object literal built by \<^verbatim>\<open>Card.animate\<close> and \<^verbatim>\<open>Card.flip\<close>.
  \<^verbatim>\<open>from\<close> and \<^verbatim>\<open>to\<close> are named \<open>from_value\<close> and \<open>to_value\<close>. An argument the caller
  leaves out is \<^verbatim>\<open>undefined\<close>: \<open>None\<close> for \<open>easing\<close> and \<open>onComplete\<close>, \<open>False\<close> for
  the flag \<open>isFlipAnimation\<close>, which is only ever tested for truth.

  A completion callback is a JavaScript closure. The model is parametric in the type \<open>'cb\<close>
  of callbacks; what a callback does when it is invoked is given by an interpretation
  \<open>run :: 'cb \<Rightarrow> 'cb card \<Rightarrow> 'cb card\<close>, the effect of the closure on the card.
\<close>

record 'cb animation =
  property :: string
  from_value :: number
  to_value :: number
  duration :: number
  easing :: "(number \<Rightarrow> number) option"
  elapsed :: number
  onComplete :: "'cb option"
  isFlipAnimation :: bool

text \<open>
  The fields of \<^verbatim>\<open>Card\<close> that \<^verbatim>\<open>animate\<close>, \<^verbatim>\<open>update\<close>, \<^verbatim>\<open>setOpacity\<close>, \<^verbatim>\<open>setHover\<close> and
  \<^verbatim>\<open>flip\<close> read or write. \<^verbatim>\<open>currentRotation.x\<close> is \<open>currentRotation_x\<close>, and so on. A
  material exists only after \<^verbatim>\<open>createMesh\<close>; the model keeps its opacity, \<open>None\<close> while the
  material is undefined. \<^verbatim>\<open>group.scale.setScalar\<close> sets the three components to one
  value, kept as \<open>group_scale\<close>.
\<close>

record 'cb card =
  isFlipped :: bool
  isHovered :: bool
  isSliding :: bool
  currentRotation_x :: number
  currentRotation_y :: number
  hoverTiltTarget_x :: number
  hoverTiltTarget_y :: number
  tiltOffset_x :: number
  tiltOffset_y :: number
  currentPosition_x :: number
  currentPosition_y :: number
  currentPosition_z :: number
  currentScale :: number
  currentOpacity :: number
  animations :: "'cb animation list"
  frontMaterial_opacity :: "number option"
  backMaterial_opacity :: "number option"
  edgeMaterial_opacity :: "number option"
  group_rotation_x :: number
  group_rotation_y :: number
  group_position_x :: number
  group_position_y :: number
  group_position_z :: number
  group_scale :: number

text \<open>The only exception \<^verbatim>\<open>update\<close> can raise itself: calling an \<^verbatim>\<open>undefined\<close> easing.\<close>

datatype error = TypeError

text \<open>The entries of \<^verbatim>\<open>CONFIG\<close> that the modelled methods use.\<close>

definition FLIP_DURATION :: number where
  "FLIP_DURATION = Fin 0.4"

definition HOVER_SCALE :: number where
  "HOVER_SCALE = Fin 1.05"

definition TILT_SMOOTHING :: number where
  "TILT_SMOOTHING = Fin 0.15"

definition setOpacity :: "number \<Rightarrow> 'cb card \<Rightarrow> 'cb card" where
  "setOpacity v c =
     c\<lparr>currentOpacity := v,
       frontMaterial_opacity := map_option (\<lambda>_. v) (frontMaterial_opacity c),
       backMaterial_opacity := map_option (\<lambda>_. v) (backMaterial_opacity c),
       edgeMaterial_opacity := map_option (\<lambda>_. v) (edgeMaterial_opacity c)\<rparr>"

definition animate ::
  "string \<Rightarrow> number \<Rightarrow> number \<Rightarrow> number \<Rightarrow> (number \<Rightarrow> number) option \<Rightarrow> 'cb option
     \<Rightarrow> 'cb card \<Rightarrow> 'cb card" where
  "animate p f t d e oc c =
     c\<lparr>animations := animations c @
        [\<lparr>property = p, from_value = f, to_value = t, duration = d, easing = e,
          elapsed = Fin 0, onComplete = oc, isFlipAnimation = False\<rparr>]\<rparr>"

text \<open>
  The chain of \<^verbatim>\<open>if (anim.property === ...)\<close> in \<^verbatim>\<open>update\<close>, lines 575 to 589: it has
  no final \<^verbatim>\<open>else\<close>.
\<close>

definition write_property :: "string \<Rightarrow> number \<Rightarrow> 'cb card \<Rightarrow> 'cb card" where
  "write_property p v c =
     (if p = ''rotationY'' then c\<lparr>currentRotation_y := v\<rparr>
      else if p = ''rotationX'' then c\<lparr>currentRotation_x := v\<rparr>
      else if p = ''positionX'' then c\<lparr>currentPosition_x := v\<rparr>
      else if p = ''positionY'' then c\<lparr>currentPosition_y := v\<rparr>
      else if p = ''positionZ'' then c\<lparr>currentPosition_z := v\<rparr>
      else if p = ''scale'' then c\<lparr>currentScale := v\<rparr>
      else if p = ''opacity'' then setOpacity v c
      else c)"

text \<open>Lines 571 and 572: \<^verbatim>\<open>anim.elapsed += deltaTime\<close> and the clamped progress.\<close>

definition advance :: "number \<Rightarrow> 'cb animation \<Rightarrow> 'cb animation" where
  "advance deltaTime anim = anim\<lparr>elapsed := elapsed anim + deltaTime\<rparr>"

definition progress :: "'cb animation \<Rightarrow> number" where
  "progress anim = Math_min (elapsed anim / duration anim) (Fin 1)"

text \<open>
  The \<^verbatim>\<open>filter\<close> of lines 570 to 596, over the array \<^verbatim>\<open>this.animations\<close> as it is when
  \<^verbatim>\<open>update\<close> is entered. It returns the filtered array, the array \<^verbatim>\<open>completedCallbacks\<close>
  and the card with the property writes done.
\<close>

fun update_filter ::
  "number \<Rightarrow> 'cb animation list \<Rightarrow> 'cb card
     \<Rightarrow> error + ('cb animation list \<times> 'cb list \<times> 'cb card)" where
  "update_filter deltaTime [] c = Inr ([], [], c)"
| "update_filter deltaTime (a # rest) c =
     (let anim = advance deltaTime a in
      case easing anim of
        None \<Rightarrow> Inl TypeError
      | Some ease \<Rightarrow>
          (let easedProgress = ease (progress anim);
               c' = write_property (property anim)
                      (interpolate (from_value anim) (to_value anim) easedProgress) c
           in case update_filter deltaTime rest c' of
                Inl err \<Rightarrow> Inl err
              | Inr (kept, completedCallbacks, c'') \<Rightarrow>
                  if Fin 1 \<le> progress anim
                  then Inr (kept,
                            (case onComplete anim of
                               Some cb \<Rightarrow> cb # completedCallbacks
                             | None \<Rightarrow> completedCallbacks),
                            c'')
                  else Inr (anim # kept, completedCallbacks, c'')))"

text \<open>Lines 603 to 613: the hover tilt.\<close>

definition hover_tilt :: "'cb card \<Rightarrow> 'cb card" where
  "hover_tilt c =
     (let hasFlipAnim = list_ex isFlipAnimation (animations c) in
      if isHovered c \<and> \<not> hasFlipAnim then
        c\<lparr>tiltOffset_x := tiltOffset_x c + (hoverTiltTarget_x c - tiltOffset_x c) * TILT_SMOOTHING,
          tiltOffset_y := tiltOffset_y c + (hoverTiltTarget_y c - tiltOffset_y c) * TILT_SMOOTHING\<rparr>
      else if \<not> isHovered c then
        c\<lparr>tiltOffset_x := tiltOffset_x c + (Fin 0 - tiltOffset_x c) * TILT_SMOOTHING,
          tiltOffset_y := tiltOffset_y c + (Fin 0 - tiltOffset_y c) * TILT_SMOOTHING\<rparr>
      else c)"

text \<open>Lines 616 to 621: the transforms of the group.\<close>

definition apply_transforms :: "'cb card \<Rightarrow> 'cb card" where
  "apply_transforms c =
     c\<lparr>group_rotation_x := currentRotation_x c + tiltOffset_x c,
       group_rotation_y := currentRotation_y c + tiltOffset_y c,
       group_position_x := currentPosition_x c,
       group_position_y := currentPosition_y c,
       group_position_z := currentPosition_z c,
       group_scale := currentScale c\<rparr>"

text \<open>\<^verbatim>\<open>completedCallbacks.forEach(callback => callback())\<close>\<close>

definition run_callbacks :: "('cb \<Rightarrow> 'cb card \<Rightarrow> 'cb card) \<Rightarrow> 'cb list \<Rightarrow> 'cb card \<Rightarrow> 'cb card" where
  "run_callbacks run cbs c = foldl (\<lambda>s cb. run cb s) c cbs"

definition update ::
  "('cb \<Rightarrow> 'cb card \<Rightarrow> 'cb card) \<Rightarrow> number \<Rightarrow> 'cb card \<Rightarrow> error + 'cb card" where
  "update run deltaTime c =
     (case update_filter deltaTime (animations c) c of
        Inl err \<Rightarrow> Inl err
      | Inr (kept, completedCallbacks, c') \<Rightarrow>
          Inr (apply_transforms (hover_tilt
                 (run_callbacks run completedCallbacks (c'\<lparr>animations := kept\<rparr>)))))"

text \<open>
  The callbacks that \<^verbatim>\<open>update(deltaTime)\<close> invokes on the card \<open>c\<close>: the array
  \<^verbatim>\<open>completedCallbacks\<close>, each element once, in order.
\<close>

definition invoked :: "number \<Rightarrow> 'cb card \<Rightarrow> 'cb list" where
  "invoked deltaTime c =
     (case update_filter deltaTime (animations c) c of
        Inl err \<Rightarrow> []
      | Inr (kept, completedCallbacks, c') \<Rightarrow> completedCallbacks)"

text \<open>
  The render loop calls \<^verbatim>\<open>card.update(deltaTime)\<close> once per frame. \<open>updates\<close> is a run of
  such calls, one per element of the list; with the final card it returns the callbacks
  invoked, in the order of invocation.
\<close>

fun updates ::
  "('cb \<Rightarrow> 'cb card \<Rightarrow> 'cb card) \<Rightarrow> number list \<Rightarrow> 'cb card \<Rightarrow> error + ('cb card \<times> 'cb list)" where
  "updates run [] c = Inr (c, [])"
| "updates run (deltaTime # ds) c =
     (case update run deltaTime c of
        Inl err \<Rightarrow> Inl err
      | Inr c' \<Rightarrow>
          (case updates run ds c' of
             Inl err \<Rightarrow> Inl err
           | Inr (c'', later) \<Rightarrow> Inr (c'', invoked deltaTime c @ later)))"

text \<open>
  \<^verbatim>\<open>setHover\<close>, lines 625 to 647. The call \<^verbatim>\<open>SoundManager.playRandomHover()\<close> plays a sound
  and touches no field of the card; it is left out.
\<close>

definition setHover :: "bool \<Rightarrow> 'cb card \<Rightarrow> 'cb card" where
  "setHover hovered c =
     (let hasFlipAnim = list_ex isFlipAnimation (animations c) in
      if hasFlipAnim \<or> isSliding c then c
      else
        (let c1 = c\<lparr>isHovered := hovered\<rparr>;
             c2 = c1\<lparr>animations :=
                     filter (\<lambda>a. (property a \<noteq> ''scale'' \<and> property a \<noteq> ''positionZ'')
                                   \<or> isFlipAnimation a) (animations c1)\<rparr>
         in if hovered then
              (let c3 = animate ''scale'' (currentScale c2) HOVER_SCALE (Fin 0.2)
                          (Some easeOutCubic) None c2
               in animate ''positionZ'' (currentPosition_z c3) (Fin 0.3) (Fin 0.2)
                    (Some easeOutCubic) None c3)
            else
              (let c3 = c2\<lparr>hoverTiltTarget_x := Fin 0, hoverTiltTarget_y := Fin 0\<rparr>;
                   c4 = animate ''scale'' (currentScale c3) (Fin 1) (Fin 0.2)
                          (Some easeOutCubic) None c3
               in animate ''positionZ'' (currentPosition_z c4) (Fin 0) (Fin 0.2)
                    (Some easeOutCubic) None c4)))"

text \<open>
  \<^verbatim>\<open>flip\<close>, lines 662 to 686, the one place that queues an animation with
  \<^verbatim>\<open>isFlipAnimation: true\<close>; the sound it plays is left out as well.
\<close>

definition flip :: "'cb option \<Rightarrow> 'cb card \<Rightarrow> 'cb card" where
  "flip oc c =
     (let c1 = c\<lparr>isFlipped := True, tiltOffset_x := Fin 0, tiltOffset_y := Fin 0\<rparr>;
          c2 = c1\<lparr>animations := animations c1 @
                 [\<lparr>property = ''rotationY'', from_value = currentRotation_y c1, to_value = Fin pi,
                   duration = FLIP_DURATION, easing = Some easeInOutCubic, elapsed = Fin 0,
                   onComplete = oc, isFlipAnimation = True\<rparr>]\<rparr>;
          c3 = animate ''positionZ'' (currentPosition_z c2) (Fin 0) FLIP_DURATION
                 (Some easeInOutCubic) None c2
      in animate ''rotationX'' (currentRotation_x c3) (Fin 0) FLIP_DURATION
           (Some easeInOutCubic) None c3)"

text \<open>
  The card as its constructor leaves it, with an empty animation queue; the materials are
  those of \<^verbatim>\<open>createMesh\<close>, whose opacity three.js initialises to 1.
\<close>

definition new_card :: "'cb card" where
  "new_card =
     \<lparr>isFlipped = False, isHovered = False, isSliding = False,
      currentRotation_x = Fin 0, currentRotation_y = Fin 0,
      hoverTiltTarget_x = Fin 0, hoverTiltTarget_y = Fin 0,
      tiltOffset_x = Fin 0, tiltOffset_y = Fin 0,
      currentPosition_x = Fin 0, currentPosition_y = Fin 0, currentPosition_z = Fin 0,
      currentScale = Fin 1, currentOpacity = Fin 0,
      animations = [],
      frontMaterial_opacity = Some (Fin 1), backMaterial_opacity = Some (Fin 1),
      edgeMaterial_opacity = Some (Fin 1),
      group_rotation_x = Fin 0, group_rotation_y = Fin 0,
      group_position_x = Fin 0, group_position_y = Fin 0, group_position_z = Fin 0,
      group_scale = Fin 1\<rparr>"

text \<open>
  Reading the slot a property name stands for (\<open>None\<close> for a name outside the seven of
  \<^verbatim>\<open>update\<close>); used to state what \<^verbatim>\<open>update\<close> leaves in a slot.
\<close>

definition slot :: "string \<Rightarrow> 'cb card \<Rightarrow> number option" where
  "slot p c =
     (if p = ''rotationY'' then Some (currentRotation_y c)
      else if p = ''rotationX'' then Some (currentRotation_x c)
      else if p = ''positionX'' then Some (currentPosition_x c)
      else if p = ''positionY'' then Some (currentPosition_y c)
      else if p = ''positionZ'' then Some (currentPosition_z c)
      else if p = ''scale'' then Some (currentScale c)
      else if p = ''opacity'' then Some (currentOpacity c)
      else None)"

section \<open>Notions used to state the properties\<close>

text \<open>The seven property names that the chain of \<^verbatim>\<open>update\<close> dispatches on.\<close>

definition recognised :: "string \<Rightarrow> bool" where
  "recognised p = (p \<in> set [''rotationY'', ''rotationX'', ''positionX'', ''positionY'',
                              ''positionZ'', ''scale'', ''opacity''])"

text \<open>
  For an animation whose \<open>elapsed\<close> has been advanced: whether line 591 finds it complete,
  the value lines 575 to 589 write for it, and the callback line 592 collects.
\<close>

definition completed :: "'cb animation \<Rightarrow> bool" where
  "completed anim = (Fin 1 \<le> progress anim)"

definition value_of :: "'cb animation \<Rightarrow> number" where
  "value_of anim =
     interpolate (from_value anim) (to_value anim) (the (easing anim) (progress anim))"

definition callback_of :: "'cb animation \<Rightarrow> 'cb list" where
  "callback_of anim = (case onComplete anim of Some cb \<Rightarrow> [cb] | None \<Rightarrow> [])"

text \<open>
  What one pass over a queue \<open>q\<close> amounts to: the animations that stay, the callbacks
  collected, and the writes, all in queue order.
\<close>

definition survivors :: "number \<Rightarrow> 'cb animation list \<Rightarrow> 'cb animation list" where
  "survivors dt q = filter (\<lambda>b. \<not> completed b) (map (advance dt) q)"

definition completed_callbacks :: "number \<Rightarrow> 'cb animation list \<Rightarrow> 'cb list" where
  "completed_callbacks dt q = concat (map callback_of (filter completed (map (advance dt) q)))"

definition writes :: "number \<Rightarrow> 'cb animation list \<Rightarrow> 'cb card \<Rightarrow> 'cb card" where
  "writes dt q c =
     foldl (\<lambda>s b. write_property (property b) (value_of b) s) c (map (advance dt) q)"

text \<open>An animation after a run of \<^verbatim>\<open>update\<close> calls that it stays queued through.\<close>

definition advances :: "number list \<Rightarrow> 'cb animation \<Rightarrow> 'cb animation" where
  "advances ds anim = foldl (\<lambda>a d. advance d a) anim ds"

text \<open>
  An animation that has nothing to do with the slot \<open>p\<close> and the callback \<open>k\<close>: it targets
  another property, completes with another callback, and has an easing.
\<close>

definition unrelated :: "string \<Rightarrow> 'cb \<Rightarrow> 'cb animation \<Rightarrow> bool" where
  "unrelated p k b = (property b \<noteq> p \<and> onComplete b \<noteq> Some k \<and> easing b \<noteq> None)"

definition has_easing :: "'cb animation \<Rightarrow> bool" where
  "has_easing b = (easing b \<noteq> None)"

section \<open>Callbacks and easings of the scenarios\<close>

text \<open>
  The two closures that \<^verbatim>\<open>slideIn\<close> passes as \<^verbatim>\<open>onComplete\<close> (lines 779 and 786), called
  with no \<^verbatim>\<open>onComplete\<close> of the caller: the first enqueues the bounce-back leg with the
  captured \<^verbatim>\<open>overshootZ\<close> and \<^verbatim>\<open>finalTargetZ\<close> and duration \<^verbatim>\<open>Z_DROP_DURATION * 0.2\<close>, the
  second clears \<^verbatim>\<open>isSliding\<close>.
\<close>

datatype callback = BounceBack number number | SlideDone

fun invoke :: "callback \<Rightarrow> callback card \<Rightarrow> callback card" where
  "invoke (BounceBack overshootZ finalTargetZ) c =
     animate ''positionZ'' overshootZ finalTargetZ (Fin 0.1) (Some easeInOutCubic)
       (Some SlideDone) c"
| "invoke SlideDone c = c\<lparr>isSliding := False\<rparr>"

text \<open>A callback that leaves the card alone, such as one that counts its invocations.\<close>

definition no_effect :: "nat \<Rightarrow> nat card \<Rightarrow> nat card" where
  "no_effect cb c = c"

text \<open>The linear easing, and an easing that ends at one half.\<close>

definition linear :: "number \<Rightarrow> number" where
  "linear t = t"

definition halfway :: "number \<Rightarrow> number" where
  "halfway t = Fin 0.5 * t"

section \<open>Arithmetic of numbers\<close>

lemma minus_Fin [simp]: "Fin a - Fin b = Fin (a - b)"
  by (simp add: minus_number_def)






section \<open>Slots, writes and the pass over the queue\<close>

lemma slot_None_iff: "slot p c = None \<longleftrightarrow> \<not> recognised p"
  by (simp add: slot_def recognised_def)

lemma write_unrecognised: "\<not> recognised p \<Longrightarrow> write_property p v c = c"
  by (simp add: write_property_def recognised_def)

lemma slot_write_same: "recognised p \<Longrightarrow> slot p (write_property p v c) = Some v"
  by (auto simp: write_property_def recognised_def slot_def setOpacity_def)

lemma slot_write_other: "q \<noteq> p \<Longrightarrow> slot p (write_property q v c) = slot p c"
  by (auto simp: write_property_def slot_def setOpacity_def)

lemma animations_write [simp]: "animations (write_property q v c) = animations c"
  by (simp add: write_property_def setOpacity_def)

lemma slot_hover_tilt [simp]: "slot p (hover_tilt c) = slot p c"
  by (simp add: hover_tilt_def slot_def Let_def)

lemma animations_hover_tilt [simp]: "animations (hover_tilt c) = animations c"
  by (simp add: hover_tilt_def Let_def)

lemma slot_apply_transforms [simp]: "slot p (apply_transforms c) = slot p c"
  by (simp add: apply_transforms_def slot_def)

lemma animations_apply_transforms [simp]: "animations (apply_transforms c) = animations c"
  by (simp add: apply_transforms_def)

lemma slot_animations_update [simp]: "slot p (c\<lparr>animations := q\<rparr>) = slot p c"
  by (simp add: slot_def)

lemma update_filter_char:
  "list_all has_easing q \<Longrightarrow>
   update_filter dt q c = Inr (survivors dt q, completed_callbacks dt q, writes dt q c)"
proof (induction q arbitrary: c)
  case Nil
  then show ?case by (simp add: survivors_def completed_callbacks_def writes_def)
next
  case (Cons a q)
  from Cons.prems have a: "has_easing a" and q: "list_all has_easing q"
    by simp_all
  from a obtain e where e: "easing a = Some e"
    by (auto simp: has_easing_def)
  have e': "easing (advance dt a) = Some e" using e by (simp add: advance_def)
  show ?case
    by (simp add: Cons.IH [OF q] Let_def e' completed_def value_of_def callback_of_def
        survivors_def completed_callbacks_def writes_def split: option.splits)
qed


lemma survivors_append: "survivors dt (xs @ ys) = survivors dt xs @ survivors dt ys"
  by (simp add: survivors_def)

lemma completed_callbacks_append:
  "completed_callbacks dt (xs @ ys) = completed_callbacks dt xs @ completed_callbacks dt ys"
  by (simp add: completed_callbacks_def)

lemma writes_append: "writes dt (xs @ ys) c = writes dt ys (writes dt xs c)"
  by (simp add: writes_def)

lemma writes_Cons:
  "writes dt (a # q) c = writes dt q (write_property (property a) (value_of (advance dt a)) c)"
  by (simp add: writes_def advance_def)

lemma writes_Nil [simp]: "writes dt [] c = c"
  by (simp add: writes_def)

lemma animations_writes [simp]: "animations (writes dt q c) = animations c"
  by (induction q arbitrary: c) (simp_all add: writes_Cons)

lemma slot_writes_other:
  "list_all (\<lambda>b. property b \<noteq> p) q \<Longrightarrow> slot p (writes dt q c) = slot p c"
  by (induction q arbitrary: c) (simp_all add: writes_Cons slot_write_other)

lemma slot_writes_last:
  "recognised p \<Longrightarrow> property b = p \<Longrightarrow> list_all (\<lambda>b. property b \<noteq> p) post \<Longrightarrow>
   slot p (writes dt (pre @ b # post) c) = Some (value_of (advance dt b))"
  by (simp add: writes_append writes_Cons slot_writes_other slot_write_same)



lemma update_char:
  "list_all has_easing (animations c) \<Longrightarrow>
   update run dt c =
     Inr (apply_transforms (hover_tilt
            (run_callbacks run (completed_callbacks dt (animations c))
               ((writes dt (animations c) c)\<lparr>animations := survivors dt (animations c)\<rparr>))))"
  by (simp add: update_def update_filter_char)

lemma invoked_char:
  "list_all has_easing (animations c) \<Longrightarrow> invoked dt c = completed_callbacks dt (animations c)"
  by (simp add: invoked_def update_filter_char)

lemma run_callbacks_enqueue:
  "\<forall>cb \<in> set cbs. \<forall>s. run cb s = s\<lparr>animations := animations s @ [leg cb]\<rparr> \<Longrightarrow>
   run_callbacks run cbs c = c\<lparr>animations := animations c @ map leg cbs\<rparr>"
  by (induction cbs arbitrary: c) (simp_all add: run_callbacks_def)


lemma slot_run_callbacks:
  "\<forall>cb s. slot p (run cb s) = slot p s \<Longrightarrow> slot p (run_callbacks run cbs c) = slot p c"
  by (induction cbs arbitrary: c) (simp_all add: run_callbacks_def)

lemma survivors_single:
  "survivors dt [a] = (if completed (advance dt a) then [] else [advance dt a])"
  by (simp add: survivors_def)

lemma completed_callbacks_single:
  "completed_callbacks dt [a] = (if completed (advance dt a) then callback_of a else [])"
  by (simp add: completed_callbacks_def callback_of_def advance_def)


lemma advances_Nil [simp]: "advances [] a = a"
  by (simp add: advances_def)

lemma advances_Cons [simp]: "advances (d # ds) a = advances ds (advance d a)"
  by (simp add: advances_def)


section \<open>Calls on a queue with unrelated animations\<close>

lemma unrelated_advance [simp]: "unrelated p k (advance dt b) = unrelated p k b"
  by (simp add: unrelated_def advance_def)

lemma unrelated_has_easing: "list_all (unrelated p k) q \<Longrightarrow> list_all has_easing q"
  by (induction q) (simp_all add: unrelated_def has_easing_def)

lemma unrelated_other_property: "list_all (unrelated p k) q \<Longrightarrow> list_all (\<lambda>b. property b \<noteq> p) q"
  by (induction q) (simp_all add: unrelated_def)

lemma unrelated_survivors: "list_all (unrelated p k) q \<Longrightarrow> list_all (unrelated p k) (survivors dt q)"
  by (induction q) (simp_all add: survivors_def)

lemma unrelated_callbacks: "list_all (unrelated p k) q \<Longrightarrow> k \<notin> set (completed_callbacks dt q)"
  by (induction q)
    (auto simp: completed_callbacks_def callback_of_def unrelated_def advance_def split: option.splits)

lemma run_callbacks_frame:
  assumes "\<forall>cb s. slot p (run cb s) = slot p s \<and>
             (\<exists>news. animations (run cb s) = animations s @ news \<and> list_all (unrelated p k) news)"
  shows "slot p (run_callbacks run cbs c) = slot p c \<and>
         (\<exists>news. animations (run_callbacks run cbs c) = animations c @ news \<and>
                  list_all (unrelated p k) news)"
proof (induction cbs arbitrary: c)
  case Nil
  then show ?case by (simp add: run_callbacks_def)
next
  case (Cons cb cbs)
  from assms obtain n1 where n1: "animations (run cb c) = animations c @ n1"
    "list_all (unrelated p k) n1" and s1: "slot p (run cb c) = slot p c"
    by blast
  from Cons.IH [of "run cb c"] obtain n2 where
    n2: "animations (run_callbacks run cbs (run cb c)) = animations (run cb c) @ n2"
    "list_all (unrelated p k) n2" and s2: "slot p (run_callbacks run cbs (run cb c)) = slot p (run cb c)"
    by blast
  have "run_callbacks run (cb # cbs) c = run_callbacks run cbs (run cb c)"
    by (simp add: run_callbacks_def)
  then show ?case using n1 n2 s1 s2 by auto
qed

text \<open>One call on a queue \<open>xs @ a # ys\<close> in which only \<open>a\<close> targets \<open>p\<close>.\<close>

lemma update_step:
  assumes run: "\<forall>cb s. slot p (run cb s) = slot p s \<and>
             (\<exists>news. animations (run cb s) = animations s @ news \<and> list_all (unrelated p k) news)"
    and q: "animations s = xs @ a # ys"
    and xs: "list_all (unrelated p k) xs" and ys: "list_all (unrelated p k) ys"
    and a: "has_easing a" "property a = p" and p: "recognised p"
  shows "\<exists>s1 news. update run dt s = Inr s1 \<and>
           animations s1 = survivors dt xs @ survivors dt [a] @ survivors dt ys @ news \<and>
           list_all (unrelated p k) news \<and>
           slot p s1 = Some (value_of (advance dt a)) \<and>
           invoked dt s = completed_callbacks dt xs @ completed_callbacks dt [a] @
                            completed_callbacks dt ys"
proof -
  have he: "list_all has_easing (animations s)"
    using q a(1) unrelated_has_easing [OF xs] unrelated_has_easing [OF ys] by simp
  let ?w = "(writes dt (animations s) s)\<lparr>animations := survivors dt (animations s)\<rparr>"
  let ?r = "run_callbacks run (completed_callbacks dt (animations s)) ?w"
  have u: "update run dt s = Inr (apply_transforms (hover_tilt ?r))"
    by (rule update_char [OF he])
  from run_callbacks_frame [OF run, of "completed_callbacks dt (animations s)" ?w]
  obtain news where n: "animations ?r = animations ?w @ news" "list_all (unrelated p k) news"
    and sl: "slot p ?r = slot p ?w" by blast
  have w: "slot p ?w = Some (value_of (advance dt a))"
    using slot_writes_last [OF p a(2) unrelated_other_property [OF ys], of dt xs s] q by simp
  have sv: "animations ?w = survivors dt xs @ survivors dt [a] @ survivors dt ys"
    using q by (simp add: survivors_def)
  have iv: "invoked dt s = completed_callbacks dt xs @ completed_callbacks dt [a] @
                            completed_callbacks dt ys"
    using q by (simp add: invoked_char [OF he] completed_callbacks_def)
  show ?thesis
    using u n sl w sv iv by simp
qed

text \<open>A run of calls on a queue in which nothing targets \<open>p\<close> or completes with \<open>k\<close>.\<close>

lemma update_frame:
  assumes run: "\<forall>cb s. slot p (run cb s) = slot p s \<and>
             (\<exists>news. animations (run cb s) = animations s @ news \<and> list_all (unrelated p k) news)"
    and q: "list_all (unrelated p k) (animations s)"
  shows "\<exists>s1. update run dt s = Inr s1 \<and> list_all (unrelated p k) (animations s1) \<and>
           slot p s1 = slot p s \<and> k \<notin> set (invoked dt s)"
proof -
  have he: "list_all has_easing (animations s)"
    by (rule unrelated_has_easing [OF q])
  let ?w = "(writes dt (animations s) s)\<lparr>animations := survivors dt (animations s)\<rparr>"
  let ?r = "run_callbacks run (completed_callbacks dt (animations s)) ?w"
  have u: "update run dt s = Inr (apply_transforms (hover_tilt ?r))"
    by (rule update_char [OF he])
  from run_callbacks_frame [OF run, of "completed_callbacks dt (animations s)" ?w]
  obtain news where n: "animations ?r = animations ?w @ news" "list_all (unrelated p k) news"
    and sl: "slot p ?r = slot p ?w" by blast
  have w: "slot p ?w = slot p s"
    using slot_writes_other [OF unrelated_other_property [OF q]] by simp
  have "list_all (unrelated p k) (animations ?r)"
    using n unrelated_survivors [OF q] by simp
  moreover have "k \<notin> set (invoked dt s)"
    using unrelated_callbacks [OF q] by (simp add: invoked_char [OF he])
  ultimately show ?thesis using u sl w by simp
qed

lemma updates_frame:
  assumes run: "\<forall>cb s. slot p (run cb s) = slot p s \<and>
             (\<exists>news. animations (run cb s) = animations s @ news \<and> list_all (unrelated p k) news)"
    and q: "list_all (unrelated p k) (animations s)"
  shows "\<exists>s' log. updates run ds s = Inr (s', log) \<and> list_all (unrelated p k) (animations s') \<and>
           slot p s' = slot p s \<and> k \<notin> set log"
  using q
proof (induction ds arbitrary: s)
  case Nil
  then show ?case by simp
next
  case (Cons d ds)
  from update_frame [OF run Cons.prems, of d] obtain s1 where
    s1: "update run d s = Inr s1" "list_all (unrelated p k) (animations s1)"
    "slot p s1 = slot p s" "k \<notin> set (invoked d s)" by blast
  from Cons.IH [OF s1(2)] obtain s' log where
    "updates run ds s1 = Inr (s', log)" "list_all (unrelated p k) (animations s')"
    "slot p s' = slot p s1" "k \<notin> set log" by blast
  then show ?case using s1 by simp
qed


text \<open>The definitions that evaluate a concrete scenario.\<close>

lemmas eval_defs = update_def invoked_def animate_def new_card_def Let_def advance_def progress_def
  linear_def interpolate_def write_property_def setOpacity_def run_callbacks_def no_effect_def
  hover_tilt_def apply_transforms_def TILT_SMOOTHING_def easeOutCubic_def easeInOutCubic_def
  easeInCubic_def Math_pow_def has_easing_def survivors_def completed_callbacks_def writes_def
  completed_def value_of_def callback_of_def minus_number_def advances_def unrelated_def
  recognised_def slot_def halfway_def

section \<open>Unrecognised property names\<close>

text \<open>
  C2, as claimed: when \<^verbatim>\<open>update\<close> processes an animation whose property name is not one
  of the seven recognised slots, the operation fails with an error. The code does not:
  the chain of line 575 has no final \<^verbatim>\<open>else\<close> and nothing in the class raises. An
  animation on \<^verbatim>\<open>'color'\<close> of duration 1 is run to completion by \<^verbatim>\<open>update(1)\<close>, which returns
  normally, invokes the callback, and leaves every field of the card as it was.
\<close>

theorem unrecognised_property_counterexample:
  "update no_effect (Fin 1)
     (animate ''color'' (Fin 0) (Fin 1) (Fin 1) (Some linear) (Some 1) new_card) = Inr new_card \<and>
   invoked (Fin 1)
     (animate ''color'' (Fin 0) (Fin 1) (Fin 1) (Some linear) (Some (1::nat)) new_card) = [1]"
  by (simp add: update_def invoked_def animate_def new_card_def Let_def advance_def progress_def
      linear_def interpolate_def write_property_def run_callbacks_def no_effect_def
      hover_tilt_def apply_transforms_def TILT_SMOOTHING_def)

text \<open>
  C2, amended: an animation whose property name is not recognised is processed without
  failure and without any write. The pass goes on with the card unchanged, and the
  animation is advanced, kept or removed, and its callback collected, like any other.
\<close>

theorem unrecognised_property_ignored:
  assumes "\<not> recognised (property a)" and "easing a = Some e"
  shows "update_filter dt (a # rest) c =
     (case update_filter dt rest c of
        Inl err \<Rightarrow> Inl err
      | Inr (kept, cbs, c') \<Rightarrow>
          if completed (advance dt a) then Inr (kept, callback_of a @ cbs, c')
          else Inr (advance dt a # kept, cbs, c'))"
proof -
  have p: "\<not> recognised (property (advance dt a))" and e: "easing (advance dt a) = Some e"
    and o: "onComplete (advance dt a) = onComplete a"
    using assms by (simp_all add: advance_def)
  show ?thesis
    by (simp add: Let_def e write_unrecognised [OF p] completed_def callback_of_def o
        split: sum.splits option.splits)
qed

theorem unrecognised_property_ignored_witness:
  "\<not> recognised ''color'' \<and>
   update_filter (Fin 1)
     [\<lparr>property = ''color'', from_value = Fin 0, to_value = Fin 1, duration = Fin 1,
       easing = Some linear, elapsed = Fin 0, onComplete = Some (1::nat),
       isFlipAnimation = False\<rparr>] new_card = Inr ([], [1], new_card)"
  using unrecognised_property_ignored [of
      "\<lparr>property = ''color'', from_value = Fin 0, to_value = Fin 1, duration = Fin 1,
        easing = Some linear, elapsed = Fin 0, onComplete = Some (1::nat),
        isFlipAnimation = False\<rparr>" linear "Fin 1" "[]" new_card]
  by (simp add: recognised_def completed_def progress_def advance_def callback_of_def)

section \<open>The easing functions at the ends of the interval\<close>


section \<open>Hovering\<close>

text \<open>
  C10: \<^verbatim>\<open>setHover\<close> called while a flip-tagged animation is queued or while \<^verbatim>\<open>isSliding\<close> is
  set returns the card as it is: no field changes, nothing leaves or enters the queue.
  Otherwise no flip-tagged animation is queued, every \<^verbatim>\<open>'scale'\<close> and \<^verbatim>\<open>'positionZ'\<close>
  animation is removed, the others stay in order, and the two replacement animations are
  enqueued behind them, starting from the current scale and z position.
\<close>

theorem setHover_frame:
  "(list_ex isFlipAnimation (animations c) \<or> isSliding c \<longrightarrow> setHover h c = c) \<and>
   (\<not> (list_ex isFlipAnimation (animations c) \<or> isSliding c) \<longrightarrow>
      animations (setHover h c) =
        filter (\<lambda>a. property a \<noteq> ''scale'' \<and> property a \<noteq> ''positionZ'') (animations c) @
        [\<lparr>property = ''scale'', from_value = currentScale c,
          to_value = (if h then HOVER_SCALE else Fin 1), duration = Fin 0.2,
          easing = Some easeOutCubic, elapsed = Fin 0, onComplete = None,
          isFlipAnimation = False\<rparr>,
         \<lparr>property = ''positionZ'', from_value = currentPosition_z c,
          to_value = (if h then Fin 0.3 else Fin 0), duration = Fin 0.2,
          easing = Some easeOutCubic, elapsed = Fin 0, onComplete = None,
          isFlipAnimation = False\<rparr>] \<and>
      isHovered (setHover h c) = h)"
proof -
  have "\<not> list_ex isFlipAnimation q \<Longrightarrow>
        filter (\<lambda>a. (property a \<noteq> ''scale'' \<and> property a \<noteq> ''positionZ'') \<or> isFlipAnimation a) q =
        filter (\<lambda>a. property a \<noteq> ''scale'' \<and> property a \<noteq> ''positionZ'') q"
    for q :: "'a animation list"
    by (induction q) auto
  then show ?thesis
    by (auto simp: setHover_def Let_def animate_def)
qed

theorem setHover_frame_witness:
  "list_ex isFlipAnimation (animations (flip None (new_card :: nat card))) \<and>
   setHover True (flip None (new_card :: nat card)) = flip None new_card \<and>
   \<not> (list_ex isFlipAnimation (animations (setHover True (new_card :: nat card)))
       \<or> isSliding (setHover True (new_card :: nat card))) \<and>
   animations (setHover False (setHover True (new_card :: nat card))) =
     [\<lparr>property = ''scale'', from_value = Fin 1, to_value = Fin 1, duration = Fin 0.2,
       easing = Some easeOutCubic, elapsed = Fin 0, onComplete = None,
       isFlipAnimation = False\<rparr>,
      \<lparr>property = ''positionZ'', from_value = Fin 0, to_value = Fin 0, duration = Fin 0.2,
       easing = Some easeOutCubic, elapsed = Fin 0, onComplete = None,
       isFlipAnimation = False\<rparr>]"
  using setHover_frame [of "flip None (new_card :: nat card)" True]
    setHover_frame [of "setHover True (new_card :: nat card)" False]
  by (simp add: flip_def setHover_def animate_def new_card_def Let_def)

section \<open>The order of writes and callbacks\<close>



section \<open>Animations enqueued by a callback\<close>

text \<open>
  C3: one call of \<^verbatim>\<open>update\<close> advances only the animations that are queued when it starts.
  When each callback invoked in the call enqueues an animation through \<^verbatim>\<open>animate\<close>, the
  card after the call carries the writes of the old queue only, and its queue is the old
  animations that stay, followed by the new ones with \<open>elapsed\<close> still 0: they have been
  neither advanced nor written nor completed, and their own callbacks are not among those
  invoked.
\<close>

theorem chained_animation_waits:
  assumes "list_all has_easing (animations c)"
    and "\<forall>cb \<in> set (completed_callbacks dt (animations c)). \<forall>s.
           run cb s = animate (property (leg cb)) (from_value (leg cb)) (to_value (leg cb))
                        (duration (leg cb)) (easing (leg cb)) (onComplete (leg cb)) s"
  shows "update run dt c =
     Inr (apply_transforms (hover_tilt
            ((writes dt (animations c) c)
               \<lparr>animations := survivors dt (animations c) @
                   map (\<lambda>cb. (leg cb)\<lparr>elapsed := Fin 0, isFlipAnimation := False\<rparr>)
                     (completed_callbacks dt (animations c))\<rparr>))) \<and>
     invoked dt c = completed_callbacks dt (animations c)"
proof -
  have "\<forall>cb \<in> set (completed_callbacks dt (animations c)). \<forall>s.
          run cb s = s\<lparr>animations := animations s @
             [(leg cb)\<lparr>elapsed := Fin 0, isFlipAnimation := False\<rparr>]\<rparr>"
    using assms(2) by (simp add: animate_def)
  from run_callbacks_enqueue [OF this]
  show ?thesis using assms(1) by (simp add: update_char invoked_char)
qed

text \<open>
  The first leg of \<^verbatim>\<open>slideIn\<close> completes at 0.4 s; its callback enqueues the bounce-back
  leg, which is in the queue after the call with \<open>elapsed = 0\<close>, while the card still sits
  at the overshoot.
\<close>

theorem chained_animation_waits_witness:
  "list_all has_easing
     (animations (animate ''positionZ'' (Fin 3) (Fin (- 0.15)) (Fin 0.4) (Some easeOutCubic)
        (Some (BounceBack (Fin (- 0.15)) (Fin 0))) new_card)) \<and>
   update invoke (Fin 0.4)
     (animate ''positionZ'' (Fin 3) (Fin (- 0.15)) (Fin 0.4) (Some easeOutCubic)
        (Some (BounceBack (Fin (- 0.15)) (Fin 0))) new_card) =
   Inr (new_card\<lparr>currentPosition_z := Fin (- 0.15), group_position_z := Fin (- 0.15),
          animations := [\<lparr>property = ''positionZ'', from_value = Fin (- 0.15), to_value = Fin 0,
            duration = Fin 0.1, easing = Some easeInOutCubic, elapsed = Fin 0,
            onComplete = Some SlideDone, isFlipAnimation = False\<rparr>]\<rparr>) \<and>
   invoked (Fin 0.4)
     (animate ''positionZ'' (Fin 3) (Fin (- 0.15)) (Fin 0.4) (Some easeOutCubic)
        (Some (BounceBack (Fin (- 0.15)) (Fin 0))) new_card) = [BounceBack (Fin (- 0.15)) (Fin 0)]"
  using chained_animation_waits [of
      "animate ''positionZ'' (Fin 3) (Fin (- 0.15)) (Fin 0.4) (Some easeOutCubic)
        (Some (BounceBack (Fin (- 0.15)) (Fin 0))) new_card"
      "Fin 0.4" invoke
      "\<lambda>cb. \<lparr>property = ''positionZ'', from_value = Fin (- 0.15), to_value = Fin 0,
            duration = Fin 0.1, easing = Some easeInOutCubic, elapsed = Fin 0,
            onComplete = Some SlideDone, isFlipAnimation = False\<rparr>"]
  by (simp add: eval_defs)

section \<open>Animations of duration zero\<close>




section \<open>An animation run to its end\<close>




section \<open>Elapsed time and progress\<close>



section \<open>Completed animations\<close>

text \<open>
  C6: an animation whose progress reaches 1 in a call of \<^verbatim>\<open>update\<close> is removed from the
  queue in that call, and its \<^verbatim>\<open>onComplete\<close> is collected once. Where it is the only
  animation of the queue with its property \<open>p\<close> and its callback \<open>k\<close>, and callbacks only
  enqueue other such animations and leave the slot alone, no later call invokes \<open>k\<close> again
  or changes the slot.
\<close>

theorem completed_animation_removed:
  assumes run: "\<forall>cb s. slot p (run cb s) = slot p s \<and>
             (\<exists>news. animations (run cb s) = animations s @ news \<and> list_all (unrelated p k) news)"
    and q: "animations c = pre @ a # post"
    and pre: "list_all (unrelated p k) pre" and post: "list_all (unrelated p k) post"
    and a: "has_easing a" "property a = p" "onComplete a = Some k" and p: "recognised p"
    and cmp: "completed (advance dt a)"
  shows "update_filter dt (animations c) c =
           Inr (survivors dt (pre @ post),
                completed_callbacks dt pre @ k # completed_callbacks dt post,
                writes dt (animations c) c) \<and>
         count_list (invoked dt c) k = 1 \<and>
         (\<exists>c1. update run dt c = Inr c1 \<and> list_all (unrelated p k) (animations c1) \<and>
            (\<forall>ds. \<exists>c2 log. updates run ds c1 = Inr (c2, log) \<and> k \<notin> set log \<and>
                     slot p c2 = slot p c1))"
proof -
  have he: "list_all has_easing (animations c)"
    using q a(1) unrelated_has_easing [OF pre] unrelated_has_easing [OF post] by simp
  have sa: "survivors dt [a] = []" and ca: "completed_callbacks dt [a] = [k]"
    using cmp a(3) by (simp_all add: survivors_single completed_callbacks_single callback_of_def)
  have sv: "survivors dt (animations c) = survivors dt (pre @ post)"
    using survivors_append [of dt pre "[a] @ post"] survivors_append [of dt "[a]" post]
      survivors_append [of dt pre post] q cmp
    by (simp add: survivors_single)
  have cb: "completed_callbacks dt (animations c) =
      completed_callbacks dt pre @ k # completed_callbacks dt post"
    using completed_callbacks_append [of dt pre "[a] @ post"]
      completed_callbacks_append [of dt "[a]" post] q ca by simp
  have 1: "update_filter dt (animations c) c =
           Inr (survivors dt (pre @ post),
                completed_callbacks dt pre @ k # completed_callbacks dt post,
                writes dt (animations c) c)"
    using update_filter_char [OF he, of dt c] sv cb by simp
  have 2: "count_list (invoked dt c) k = 1"
    using unrelated_callbacks [OF pre, of dt] unrelated_callbacks [OF post, of dt]
    by (simp add: invoked_char [OF he] cb count_list_0_iff)
  from update_step [OF run q pre post a(1) a(2) p, of dt] obtain c1 news where
    c1: "update run dt c = Inr c1"
    "animations c1 = survivors dt pre @ survivors dt [a] @ survivors dt post @ news"
    "list_all (unrelated p k) news" by blast
  have u: "list_all (unrelated p k) (animations c1)"
    using c1(2) c1(3) sa unrelated_survivors [OF pre] unrelated_survivors [OF post] by simp
  have "\<forall>ds. \<exists>c2 log. updates run ds c1 = Inr (c2, log) \<and> k \<notin> set log \<and> slot p c2 = slot p c1"
    using updates_frame [OF run u] by blast
  then show ?thesis using 1 2 c1(1) u by blast
qed

theorem completed_animation_removed_witness:
  "completed (advance (Fin 0.5)
     \<lparr>property = ''opacity'', from_value = Fin 0, to_value = Fin 1, duration = Fin 0.5,
       easing = Some linear, elapsed = Fin 0, onComplete = Some (1::nat),
       isFlipAnimation = False\<rparr>) \<and>
   update no_effect (Fin 0.5)
     (animate ''opacity'' (Fin 0) (Fin 1) (Fin 0.5) (Some linear) (Some 1) new_card) =
   Inr (setOpacity (Fin 1) new_card) \<and>
   invoked (Fin 0.5)
     (animate ''opacity'' (Fin 0) (Fin 1) (Fin 0.5) (Some linear) (Some (1::nat)) new_card) = [1] \<and>
   updates no_effect [Fin 0.25, Fin 0.25] (setOpacity (Fin 1) new_card) =
   Inr (setOpacity (Fin 1) new_card, [])"
proof -
  let ?a = "\<lparr>property = ''opacity'', from_value = Fin 0, to_value = Fin 1, duration = Fin 0.5,
       easing = Some linear, elapsed = Fin 0, onComplete = Some (1::nat),
       isFlipAnimation = False\<rparr>"
  let ?c = "animate ''opacity'' (Fin 0) (Fin 1) (Fin 0.5) (Some linear) (Some (1::nat)) new_card"
  have h1: "\<forall>cb s. slot ''opacity'' (no_effect cb s) = slot ''opacity'' s \<and>
     (\<exists>news. animations (no_effect cb s) = animations s @ news \<and>
              list_all (unrelated ''opacity'' 1) news)"
    by (simp add: no_effect_def)
  have h2: "animations ?c = [] @ ?a # []" by (simp add: animate_def new_card_def)
  have h3: "list_all (unrelated ''opacity'' (1::nat)) []" by simp
  have h4: "has_easing ?a" "property ?a = ''opacity''" "onComplete ?a = Some 1"
    by (simp_all add: has_easing_def)
  have h5: "recognised ''opacity''" by (simp add: recognised_def)
  have h6: "completed (advance (Fin 0.5) ?a)"
    by (simp add: completed_def progress_def advance_def)
  from completed_animation_removed [where run = no_effect and c = ?c and dt = "Fin 0.5",
      OF h1 h2 h3 h3 h4 h5 h6]
  show ?thesis using h6 by (simp add: eval_defs)
qed

section \<open>Two animations on one property\<close>

text \<open>
  C7: when two animations of the queue target the same property, a call of \<^verbatim>\<open>update\<close>
  advances both, each stays queued unless it completes, and both values are written into
  the slot: the value of the first when it is processed, then the value of the second.
  With no later animation on that property and callbacks that leave the slot alone, the
  slot holds the value of the second after the call.
\<close>

theorem same_property_last_write_wins:
  assumes "animations c = pre @ a # mid @ b # post"
    and "list_all has_easing (animations c)"
    and "property a = p" and "property b = p" and "recognised p"
    and "list_all (\<lambda>x. property x \<noteq> p) post"
    and "\<forall>cb s. slot p (run cb s) = slot p s"
  shows "update_filter dt (animations c) c =
           Inr (survivors dt pre @ (if completed (advance dt a) then [] else [advance dt a]) @
                survivors dt mid @ (if completed (advance dt b) then [] else [advance dt b]) @
                survivors dt post,
                completed_callbacks dt (animations c), writes dt (animations c) c) \<and>
         slot p (writes dt (pre @ [a]) c) = Some (value_of (advance dt a)) \<and>
         slot p (writes dt (animations c) c) = Some (value_of (advance dt b)) \<and>
         (\<exists>c'. update run dt c = Inr c' \<and> slot p c' = Some (value_of (advance dt b)))"
proof -
  have k: "survivors dt (animations c) =
      survivors dt pre @ (if completed (advance dt a) then [] else [advance dt a]) @
      survivors dt mid @ (if completed (advance dt b) then [] else [advance dt b]) @
      survivors dt post"
    unfolding assms(1) by (simp add: survivors_def)
  have wa: "slot p (writes dt (pre @ [a]) c) = Some (value_of (advance dt a))"
    using slot_writes_last [OF assms(5) assms(3), of "[]" dt pre c] by simp
  have "animations c = (pre @ a # mid) @ b # post" using assms(1) by simp
  then have wb: "slot p (writes dt (animations c) c) = Some (value_of (advance dt b))"
    using slot_writes_last [OF assms(5) assms(4) assms(6), of dt "pre @ a # mid" c] by simp
  have "update run dt c = Inr (apply_transforms (hover_tilt
            (run_callbacks run (completed_callbacks dt (animations c))
               ((writes dt (animations c) c)\<lparr>animations := survivors dt (animations c)\<rparr>))))"
    by (rule update_char [OF assms(2)])
  moreover have "slot p (apply_transforms (hover_tilt
            (run_callbacks run (completed_callbacks dt (animations c))
               ((writes dt (animations c) c)\<lparr>animations := survivors dt (animations c)\<rparr>)))) =
         Some (value_of (advance dt b))"
    using wb by (simp add: slot_run_callbacks [OF assms(7)])
  ultimately show ?thesis
    using k wa wb update_filter_char [OF assms(2), of dt c] by simp
qed

text \<open>
  The scenario of two \<^verbatim>\<open>positionZ\<close> animations, from 3 to 0 over 0.5 s with \<^verbatim>\<open>easeOutCubic\<close>
  and from 3 to -15 over 0.6 s with \<^verbatim>\<open>easeInCubic\<close>: after 0.3 s both are queued and the
  slot holds 0.75, the value of the second, not 0.192.
\<close>

theorem same_property_last_write_wins_witness:
  "recognised ''positionZ'' \<and>
   update no_effect (Fin 0.3)
     (animate ''positionZ'' (Fin 3) (Fin (- 15)) (Fin 0.6) (Some easeInCubic) None
        (animate ''positionZ'' (Fin 3) (Fin 0) (Fin 0.5) (Some easeOutCubic) None new_card)) =
   Inr (new_card\<lparr>currentPosition_z := Fin 0.75, group_position_z := Fin 0.75,
          animations :=
            [\<lparr>property = ''positionZ'', from_value = Fin 3, to_value = Fin 0, duration = Fin 0.5,
              easing = Some easeOutCubic, elapsed = Fin 0.3, onComplete = None,
              isFlipAnimation = False\<rparr>,
             \<lparr>property = ''positionZ'', from_value = Fin 3, to_value = Fin (- 15),
              duration = Fin 0.6, easing = Some easeInCubic, elapsed = Fin 0.3,
              onComplete = None, isFlipAnimation = False\<rparr>]\<rparr>) \<and>
   value_of (advance (Fin 0.3)
     \<lparr>property = ''positionZ'', from_value = Fin 3, to_value = Fin 0, duration = Fin 0.5,
       easing = Some easeOutCubic, elapsed = Fin 0, onComplete = (None :: nat option),
       isFlipAnimation = False\<rparr>) = Fin 0.192 \<and>
   value_of (advance (Fin 0.3)
     \<lparr>property = ''positionZ'', from_value = Fin 3, to_value = Fin (- 15), duration = Fin 0.6,
       easing = Some easeInCubic, elapsed = Fin 0, onComplete = (None :: nat option),
       isFlipAnimation = False\<rparr>) = Fin 0.75"
proof -
  let ?a = "\<lparr>property = ''positionZ'', from_value = Fin 3, to_value = Fin 0, duration = Fin 0.5,
       easing = Some easeOutCubic, elapsed = Fin 0, onComplete = (None :: nat option),
       isFlipAnimation = False\<rparr>"
  let ?b = "\<lparr>property = ''positionZ'', from_value = Fin 3, to_value = Fin (- 15),
       duration = Fin 0.6, easing = Some easeInCubic, elapsed = Fin 0,
       onComplete = (None :: nat option), isFlipAnimation = False\<rparr>"
  let ?c = "animate ''positionZ'' (Fin 3) (Fin (- 15)) (Fin 0.6) (Some easeInCubic) None
        (animate ''positionZ'' (Fin 3) (Fin 0) (Fin 0.5) (Some easeOutCubic) None
           (new_card :: nat card))"
  have h1: "animations ?c = [] @ ?a # [] @ ?b # []" by (simp add: animate_def new_card_def)
  have h2: "list_all has_easing (animations ?c)"
    by (simp add: animate_def new_card_def has_easing_def)
  have h3: "property ?a = ''positionZ''" "property ?b = ''positionZ''" by simp_all
  have h4: "recognised ''positionZ''" by (simp add: recognised_def)
  have h5: "list_all (\<lambda>x. property x \<noteq> ''positionZ'') ([] :: nat animation list)" by simp
  have h6: "\<forall>cb s. slot ''positionZ'' (no_effect cb s) = slot ''positionZ'' s"
    by (simp add: no_effect_def)
  from same_property_last_write_wins [where run = no_effect and c = ?c and dt = "Fin 0.3",
      OF h1 h2 h3 h4 h5 h6]
  show ?thesis using h4 by (simp add: eval_defs power3_eq_cube)
qed

end
